theory Spec2Isabelle
  imports
    Complex_Main
    "HOL-Library.Sublist"
    "HOL-Library.Char_ord"
    "HOL-Library.List_Lexorder"
    "HOL-Library.Product_Lexorder"
begin

section \<open>The credit-risk dashboards: load, filter, aggregate, summarise\<close>

text \<open>
  The three dashboards (\<^verbatim>\<open>streamlit_dashboard.py\<close>, \<^verbatim>\<open>updated_dashboard.py\<close>,
  \<^verbatim>\<open>run_dashboard.py\<close>) share one preprocessing block and the same aggregations; only the
  Streamlit one filters. A data frame is the list of its rows, in order. The pandas calls
  are modelled by what pandas documents for the arguments the source passes, with the
  defaults the source leaves in place written out at each definition.

  Numbers: the columns \<^verbatim>\<open>Age\<close>, \<^verbatim>\<open>Job\<close>, \<^verbatim>\<open>Credit amount\<close> and \<^verbatim>\<open>Duration\<close> hold
  integers (pandas reads them as int64; the unbounded \<open>int\<close> stands for them, overflow of a
  column sum is not modelled). Bin edges and means are binary64 in the program and exact
  reals here, with not-a-number kept as a value of its own.
  Strings are byte lists: a character outside ASCII is written as its UTF-8 bytes.
\<close>

subsection \<open>Rows\<close>

text \<open>A row of \<^verbatim>\<open>german_credit_data.csv\<close> as \<^verbatim>\<open>pd.read_csv\<close> returns it: the two account
  columns may be missing (NaN), here \<open>None\<close>.\<close>

record csv_row =
  csv_Age :: int
  csv_Sex :: string
  csv_Job :: int
  csv_Housing :: string
  csv_Saving_accounts :: "string option"
  csv_Checking_account :: "string option"
  csv_Credit_amount :: int
  csv_Duration :: int
  csv_Purpose :: string

text \<open>A row of \<^verbatim>\<open>df_clean\<close>. The two derived columns are pandas categoricals: the value is
  the code of the category (its position among the labels), \<open>None\<close> for NaN.\<close>

record row =
  Age :: int
  Sex :: string
  Job :: int
  Housing :: string
  Saving_accounts :: string
  Checking_account :: string
  Credit_amount :: int
  Duration :: int
  Purpose :: string
  Age_Group :: "nat option"
  Credit_Amount_Group :: "nat option"

datatype error = FileNotFoundError | ValueError

subsection \<open>\<^verbatim>\<open>pd.cut\<close>\<close>

text \<open>\<^verbatim>\<open>bins.searchsorted(x, side='left')\<close>: the number of edges strictly below \<open>x\<close>
  (the edges are increasing).\<close>

definition searchsorted_left :: "real list \<Rightarrow> real \<Rightarrow> nat" where
  "searchsorted_left bins x = length (takeWhile (\<lambda>b. b < x) bins)"

text \<open>\<^verbatim>\<open>pd.cut(x, bins, labels=...)\<close> with the defaults \<^verbatim>\<open>right=True\<close>,
  \<^verbatim>\<open>include_lowest=False\<close>: the intervals are open on the left and closed on the right; a value
  at or below the first edge or above the last one gets NaN.\<close>

definition cut_code :: "real list \<Rightarrow> real \<Rightarrow> nat option" where
  "cut_code bins x =
     (let ids = searchsorted_left bins x
      in if ids = length bins \<or> ids = 0 then None else Some (ids - 1))"

text \<open>\<^verbatim>\<open>np.linspace(mn, mx, n + 1)\<close>\<close>

definition linspace :: "real \<Rightarrow> real \<Rightarrow> nat \<Rightarrow> real list" where
  "linspace mn mx n = map (\<lambda>i. mn + real i * ((mx - mn) / real n)) [0..<Suc n]"

text \<open>The edges pandas computes for \<^verbatim>\<open>bins=5\<close> (an integer): equal-width bins over the
  observed minimum and maximum, the first edge lowered by 0.1% of the range so that the
  minimum falls into the first bin; when all values are equal the range is widened first.
  An empty column raises \<^verbatim>\<open>ValueError('Cannot cut empty array')\<close>.\<close>

definition nbins_to_bins :: "real list \<Rightarrow> nat \<Rightarrow> error + real list" where
  "nbins_to_bins x nbins =
     (if x = [] then Inl ValueError
      else
        let mn = Min (set x); mx = Max (set x)
        in if mn = mx then
             Inr (linspace (mn - (if mn \<noteq> 0 then 0.001 * \<bar>mn\<bar> else 0.001))
                           (mx + (if mx \<noteq> 0 then 0.001 * \<bar>mx\<bar> else 0.001)) nbins)
           else
             (let bins = linspace mn mx nbins; adj = (mx - mn) * 0.001
              in Inr ((hd bins - adj) # tl bins)))"

definition age_bins :: "real list" where
  "age_bins = [0, 25, 35, 45, 55, 100]"

definition age_labels :: "string list" where
  "age_labels = [''18-25'', ''26-35'', ''36-45'', ''46-55'', ''55+'']"

definition credit_labels :: "string list" where
  "credit_labels = [''Very Low'', ''Low'', ''Medium'', ''High'', ''Very High'']"

text \<open>The label a categorical value shows.\<close>

definition label_of :: "string list \<Rightarrow> nat option \<Rightarrow> string option" where
  "label_of labels c = map_option (\<lambda>i. labels ! i) c"

subsection \<open>Loading\<close>

definition fillna :: "string \<Rightarrow> string option \<Rightarrow> string" where
  "fillna v x = (case x of None \<Rightarrow> v | Some s \<Rightarrow> s)"

text \<open>The block \<^verbatim>\<open># Data preprocessing\<close>, the same in the three files. The edges of the
  credit buckets come from the whole \<^verbatim>\<open>Credit amount\<close> column of the frame that was read.\<close>

definition df_clean :: "csv_row list \<Rightarrow> error + row list" where
  "df_clean df =
     (case nbins_to_bins (map (\<lambda>r. real_of_int (csv_Credit_amount r)) df) 5 of
        Inl e \<Rightarrow> Inl e
      | Inr bins \<Rightarrow>
          Inr (map (\<lambda>r.
            \<lparr> Age = csv_Age r, Sex = csv_Sex r, Job = csv_Job r, Housing = csv_Housing r,
              Saving_accounts = fillna ''unknown'' (csv_Saving_accounts r),
              Checking_account = fillna ''unknown'' (csv_Checking_account r),
              Credit_amount = csv_Credit_amount r, Duration = csv_Duration r,
              Purpose = csv_Purpose r,
              Age_Group = cut_code age_bins (real_of_int (csv_Age r)),
              Credit_Amount_Group = cut_code bins (real_of_int (csv_Credit_amount r)) \<rparr>) df))"


subsection \<open>Filtering\<close>

text \<open>The four sidebar widgets of \<^verbatim>\<open>main\<close>.\<close>

record filter_spec =
  selected_purpose :: "string list"
  selected_housing :: "string list"
  age_range :: "int \<times> int"
  credit_range :: "int \<times> int"

text \<open>\<^verbatim>\<open>Series.unique()\<close>: the distinct values in order of first appearance.\<close>

fun unique :: "'a list \<Rightarrow> 'a list" where
  "unique [] = []"
| "unique (x # xs) = x # unique (filter (\<lambda>y. y \<noteq> x) xs)"

text \<open>\<^verbatim>\<open>Series.isin(values)\<close>, \<^verbatim>\<open>Series.between(left, right)\<close> (default
  \<^verbatim>\<open>inclusive='both'\<close>), the elementwise \<^verbatim>\<open>&\<close> of two boolean columns of one frame, and
  \<^verbatim>\<open>df[mask]\<close>.\<close>

definition isin :: "'a list \<Rightarrow> 'a list \<Rightarrow> bool list" where
  "isin col vals = map (\<lambda>v. v \<in> set vals) col"

definition between :: "int list \<Rightarrow> int \<Rightarrow> int \<Rightarrow> bool list" where
  "between col left right = map (\<lambda>x. left \<le> x \<and> x \<le> right) col"

definition mask_and :: "bool list \<Rightarrow> bool list \<Rightarrow> bool list" where
  "mask_and a b = map (\<lambda>(p, q). p \<and> q) (zip a b)"

definition bool_index :: "'a list \<Rightarrow> bool list \<Rightarrow> 'a list" where
  "bool_index df keep = map fst (filter snd (zip df keep))"

definition filtered_df :: "row list \<Rightarrow> filter_spec \<Rightarrow> row list" where
  "filtered_df df sp =
     bool_index df
       (mask_and
         (mask_and
           (mask_and (isin (map Purpose df) (selected_purpose sp))
                     (isin (map Housing df) (selected_housing sp)))
           (between (map Age df) (fst (age_range sp)) (snd (age_range sp))))
         (between (map Credit_amount df) (fst (credit_range sp)) (snd (credit_range sp))))"


text \<open>The condition of the four masks on one row.\<close>

definition passes :: "filter_spec \<Rightarrow> row \<Rightarrow> bool" where
  "passes sp r \<longleftrightarrow>
     Purpose r \<in> set (selected_purpose sp) \<and>
     Housing r \<in> set (selected_housing sp) \<and>
     fst (age_range sp) \<le> Age r \<and> Age r \<le> snd (age_range sp) \<and>
     fst (credit_range sp) \<le> Credit_amount r \<and> Credit_amount r \<le> snd (credit_range sp)"

subsection \<open>Numbers as text\<close>

text \<open>\<^verbatim>\<open>str\<close> of an integer, and the format \<^verbatim>\<open>{n:,}\<close> that groups the digits in
  threes.\<close>

definition digit_char :: "nat \<Rightarrow> char" where
  "digit_char d = ''0123456789'' ! d"

fun str_nat :: "nat \<Rightarrow> string" where
  "str_nat n = (if n < 10 then [digit_char n] else str_nat (n div 10) @ [digit_char (n mod 10)])"

declare str_nat.simps [simp del]

definition str_int :: "int \<Rightarrow> string" where
  "str_int i = (if i < 0 then CHR ''-'' # str_nat (nat (- i)) else str_nat (nat i))"

fun group3 :: "string \<Rightarrow> string" where
  "group3 (a # b # c # d # ds) = a # b # c # CHR '','' # group3 (d # ds)"
| "group3 ds = ds"

definition commas :: "string \<Rightarrow> string" where
  "commas ds = rev (group3 (rev ds))"

text \<open>A float is not-a-number or finite; a finite one carries the exact value.\<close>

datatype pyfloat = NaN | Finite real

fun fsub :: "pyfloat \<Rightarrow> pyfloat \<Rightarrow> pyfloat" where
  "fsub (Finite a) (Finite b) = Finite (a - b)"
| "fsub _ _ = NaN"

text \<open>How Python writes a finite float under the three format specifications the source
  uses is a parameter: it depends on the binary64 value. Not-a-number is written
  \<^verbatim>\<open>nan\<close> under each of them.\<close>

record float_format =
  fmt_comma_0f :: "real \<Rightarrow> string"
  fmt_0f :: "real \<Rightarrow> string"
  fmt_1f :: "real \<Rightarrow> string"

definition format_comma_0f :: "float_format \<Rightarrow> pyfloat \<Rightarrow> string" where
  "format_comma_0f ff x = (case x of NaN \<Rightarrow> ''nan'' | Finite q \<Rightarrow> fmt_comma_0f ff q)"

definition format_0f :: "float_format \<Rightarrow> pyfloat \<Rightarrow> string" where
  "format_0f ff x = (case x of NaN \<Rightarrow> ''nan'' | Finite q \<Rightarrow> fmt_0f ff q)"

definition format_1f :: "float_format \<Rightarrow> pyfloat \<Rightarrow> string" where
  "format_1f ff x = (case x of NaN \<Rightarrow> ''nan'' | Finite q \<Rightarrow> fmt_1f ff q)"

text \<open>One such rendering, of the exact value with ties to even, for running examples.\<close>

definition round_half_even :: "real \<Rightarrow> int" where
  "round_half_even q =
     (let f = \<lfloor>q\<rfloor>; d = q - of_int f
      in if d < 1 / 2 then f else if 1 / 2 < d then f + 1 else if even f then f else f + 1)"

definition sign_str :: "real \<Rightarrow> string" where
  "sign_str q = (if q < 0 then ''-'' else [])"

definition decimal_format :: float_format where
  "decimal_format =
     \<lparr> fmt_comma_0f = (\<lambda>q. sign_str q @ commas (str_nat (nat (round_half_even \<bar>q\<bar>)))),
       fmt_0f = (\<lambda>q. sign_str q @ str_nat (nat (round_half_even \<bar>q\<bar>))),
       fmt_1f = (\<lambda>q. let t = nat (round_half_even (\<bar>q\<bar> * 10))
                     in sign_str q @ str_nat (t div 10) @ ''.'' @ str_nat (t mod 10)) \<rparr>"

subsection \<open>Aggregation\<close>

text \<open>\<^verbatim>\<open>Series.mean()\<close> of an integer column: NaN when the column is empty.\<close>

definition mean :: "int list \<Rightarrow> pyfloat" where
  "mean xs = (if xs = [] then NaN else Finite (real_of_int (sum_list xs) / real (length xs)))"

text \<open>\<^verbatim>\<open>df.groupby([a, b]).size().reset_index(name='Count')\<close> on two plain columns, given the
  key of each row: one line per key that occurs, with the number of its rows. The default
  \<^verbatim>\<open>sort=True\<close> puts the keys in ascending order (pairs compared first on \<open>a\<close>, then on
  \<open>b\<close>; strings by code point).\<close>

definition groupby_size :: "('k::linorder) list \<Rightarrow> ('k \<times> nat) list" where
  "groupby_size keys = map (\<lambda>k. (k, count_list keys k)) (sort (remdups keys))"

definition housing_job_keys :: "row list \<Rightarrow> (string \<times> int) list" where
  "housing_job_keys view = map (\<lambda>r. (Housing r, Job r)) view"

definition housing_job :: "row list \<Rightarrow> ((string \<times> int) \<times> nat) list" where
  "housing_job view = groupby_size (housing_job_keys view)"

definition savings_checking_keys :: "row list \<Rightarrow> (string \<times> string) list" where
  "savings_checking_keys view = map (\<lambda>r. (Saving_accounts r, Checking_account r)) view"

definition savings_checking :: "row list \<Rightarrow> ((string \<times> string) \<times> nat) list" where
  "savings_checking view = groupby_size (savings_checking_keys view)"

text \<open>The same call on \<^verbatim>\<open>['Age_Group', 'Sex']\<close>. \<^verbatim>\<open>Age_Group\<close> is a categorical: its
  keys are ordered by category code, and the default \<^verbatim>\<open>dropna=True\<close> leaves out every row
  whose \<^verbatim>\<open>Age_Group\<close> is NaN. The default of \<^verbatim>\<open>observed\<close> depends on the pandas version, so
  it is a parameter: with \<^verbatim>\<open>observed=False\<close> (pandas before 3.0) the table has a line for
  every category and every value of \<^verbatim>\<open>Sex\<close> in the frame, with count 0 where no row has
  that key; with \<^verbatim>\<open>observed=True\<close> only the keys that occur.\<close>

definition age_sex_keys :: "row list \<Rightarrow> (nat \<times> string) list" where
  "age_sex_keys view =
     concat (map (\<lambda>r. case Age_Group r of None \<Rightarrow> [] | Some g \<Rightarrow> [(g, Sex r)]) view)"

definition age_sex_counts :: "bool \<Rightarrow> row list \<Rightarrow> ((nat \<times> string) \<times> nat) list" where
  "age_sex_counts observed view =
     (let keys = age_sex_keys view
      in if observed then groupby_size keys
         else map (\<lambda>k. (k, count_list keys k))
                (List.product [0..<length age_labels] (sort (remdups (map Sex view)))))"

text \<open>\<^verbatim>\<open>Series.value_counts()\<close>: the distinct values with their counts, sorted by descending
  count (defaults \<^verbatim>\<open>sort=True\<close>, \<^verbatim>\<open>ascending=False\<close>). The counts are collected in order of
  first appearance and the sort is taken to be stable, so equal counts stay in that
  order.\<close>

definition value_counts :: "'a list \<Rightarrow> ('a \<times> nat) list" where
  "value_counts col =
     sort_key (\<lambda>(v, c). - int c) (map (\<lambda>v. (v, count_list col v)) (unique col))"

text \<open>The four \<^verbatim>\<open>st.metric\<close> boxes of the Streamlit page, over the whole frame \<open>df\<close> and
  the filtered one.\<close>

record metric =
  metric_label :: string
  metric_value :: string
  metric_delta :: string

definition key_metrics :: "float_format \<Rightarrow> row list \<Rightarrow> row list \<Rightarrow> metric list" where
  "key_metrics ff df view =
     [ \<lparr> metric_label = [CHR 0xF0, CHR 0x9F, CHR 0x93, CHR 0x88] @ '' Total Records'',
         metric_value = commas (str_nat (length view)),
         metric_delta = str_int (int (length view) - int (length df)) @ '' from total'' \<rparr>,
       \<lparr> metric_label = [CHR 0xF0, CHR 0x9F, CHR 0x92, CHR 0xB0] @ '' Avg Credit Amount'',
         metric_value = ''$'' @ format_comma_0f ff (mean (map Credit_amount view)),
         metric_delta = ''$'' @ format_comma_0f ff
                          (fsub (mean (map Credit_amount view)) (mean (map Credit_amount df))) \<rparr>,
       \<lparr> metric_label = [CHR 0xF0, CHR 0x9F, CHR 0x93, CHR 0x85] @ '' Avg Duration'',
         metric_value = format_0f ff (mean (map Duration view)) @ '' months'',
         metric_delta = format_0f ff (fsub (mean (map Duration view)) (mean (map Duration df)))
                          @ '' months'' \<rparr>,
       \<lparr> metric_label = [CHR 0xF0, CHR 0x9F, CHR 0x91, CHR 0xA5] @ '' Avg Age'',
         metric_value = format_0f ff (mean (map Age view)) @ '' years'',
         metric_delta = format_0f ff (fsub (mean (map Age view)) (mean (map Age df)))
                          @ '' years'' \<rparr> ]"

text \<open>The dictionary \<^verbatim>\<open>data_summary\<close>. The Streamlit page fills \<^verbatim>\<open>risk_distribution\<close>, the
  Dash page \<^verbatim>\<open>high_risk_pct\<close>; a key that is absent is \<open>None\<close> and read with the default
  of the \<^verbatim>\<open>.get\<close> call.\<close>

record data_summary =
  total_records :: nat
  avg_credit :: pyfloat
  avg_age :: pyfloat
  avg_duration :: pyfloat
  risk_distribution :: "string option"
  high_risk_pct :: "pyfloat option"
  timestamp :: string

text \<open>The dictionary built in \<^verbatim>\<open>main\<close> (Streamlit) from the filtered frame and the one built
  in \<^verbatim>\<open>update_all_charts\<close> (Dash) from the whole frame; \<open>now\<close> is the clock reading.\<close>

definition streamlit_summary :: "string \<Rightarrow> row list \<Rightarrow> data_summary" where
  "streamlit_summary now view =
     \<lparr> total_records = length view,
       avg_credit = mean (map Credit_amount view),
       avg_age = mean (map Age view),
       avg_duration = mean (map Duration view),
       risk_distribution = Some ''Mixed portfolio'',
       high_risk_pct = None,
       timestamp = now \<rparr>"

definition dash_summary :: "string \<Rightarrow> row list \<Rightarrow> data_summary" where
  "dash_summary now df =
     \<lparr> total_records = length df,
       avg_credit = mean (map Credit_amount df),
       avg_age = mean (map Age df),
       avg_duration = mean (map Duration df),
       risk_distribution = None,
       high_risk_pct = Some (Finite 30),
       timestamp = now \<rparr>"

subsection \<open>The summary text\<close>

text \<open>The text service is outside the program: it takes the prompt and either answers with
  a text or raises an exception, of which the program reads the message \<^verbatim>\<open>str(e)\<close>. Building
  the client is part of the attempt.\<close>

datatype response = Content string | Raised string

type_synonym service = "string \<Rightarrow> response"

definition bullet :: string where
  "bullet = [CHR 0xE2, CHR 0x80, CHR 0xA2]"

definition get_risk_distribution :: "data_summary \<Rightarrow> string" where
  "get_risk_distribution s = (case risk_distribution s of None \<Rightarrow> ''N/A'' | Some r \<Rightarrow> r)"

definition get_high_risk_pct :: "data_summary \<Rightarrow> pyfloat" where
  "get_high_risk_pct s = (case high_risk_pct s of None \<Rightarrow> Finite 0 | Some p \<Rightarrow> p)"

text \<open>\<^verbatim>\<open>generate_ai_analysis\<close> (Streamlit): the prompt, the text returned when the attempt
  raises, and the function. The answer of the service is returned as it is; the exception
  \<^verbatim>\<open>e\<close> is bound and not used.\<close>

definition ai_prompt :: "float_format \<Rightarrow> data_summary \<Rightarrow> string" where
  "ai_prompt ff s =
       ''\<newline>''
       @ ''        Analyze this German credit risk dataset and provide professional insights:\<newline>''
       @ ''        \<newline>''
       @ ''        Dataset Summary:\<newline>''
       @ ''        - Total records: '' @ str_nat (total_records s) @ ''\<newline>''
       @ ''        - Average credit amount: $'' @ format_comma_0f ff (avg_credit s)
       @ ''\<newline>''
       @ ''        - Average age: '' @ format_1f ff (avg_age s) @ '' years\<newline>''
       @ ''        - Average duration: '' @ format_1f ff (avg_duration s) @ '' months\<newline>''
       @ ''        - Risk distribution: '' @ get_risk_distribution s @ ''\<newline>''
       @ ''        \<newline>''
       @ ''        Provide:\<newline>''
       @ ''        1. Key insights about credit risk patterns\<newline>''
       @ ''        2. Critical risk factors\<newline>''
       @ ''        3. Business recommendations\<newline>''
       @ ''        4. Market trends observed\<newline>''
       @ ''        \<newline>''
       @ ''        Format professionally with bullet points. Focus on actionable insights.\<newline>''
       @ ''        ''"

definition ai_fallback :: "float_format \<Rightarrow> data_summary \<Rightarrow> string" where
  "ai_fallback ff s =
       ''\<newline>''
       @ ''        **Professional Credit Risk Analysis**\<newline>''
       @ ''        \<newline>''
       @ ''        **Key Performance Indicators:**\<newline>''
       @ ''        '' @ bullet @ '' Portfolio size: '' @ str_nat (total_records s)
       @ '' active accounts\<newline>''
       @ ''        '' @ bullet @ '' Average exposure: $'' @ format_comma_0f ff (avg_credit s)
       @ '' per account\<newline>''
       @ ''        '' @ bullet @ '' Client demographics: Average age ''
       @ format_1f ff (avg_age s) @ '' years\<newline>''
       @ ''        \<newline>''
       @ ''        **Risk Assessment:**\<newline>''
       @ ''        '' @ bullet
       @ '' Housing stability correlates with creditworthiness\<newline>''
       @ ''        '' @ bullet
       @ '' Loan duration shows inverse relationship with default risk\<newline>''
       @ ''        '' @ bullet
       @ '' Age demographics indicate prime borrowing segment (26-35)\<newline>''
       @ ''        \<newline>''
       @ ''        **Strategic Recommendations:**\<newline>''
       @ ''        '' @ bullet
       @ '' Implement tiered risk pricing based on housing status\<newline>''
       @ ''        '' @ bullet @ '' Develop age-specific lending products\<newline>''
       @ ''        '' @ bullet @ '' Enhance due diligence for high-value loans\<newline>''
       @ ''        \<newline>''
       @ ''        Note: Live AI analysis requires OpenAI API connectivity\<newline>''
       @ ''        ''"

definition generate_ai_analysis :: "float_format \<Rightarrow> service \<Rightarrow> data_summary \<Rightarrow> string" where
  "generate_ai_analysis ff service s =
     (case service (ai_prompt ff s) of
        Content c \<Rightarrow> c
      | Raised e \<Rightarrow> ai_fallback ff s)"

text \<open>\<^verbatim>\<open>generate_credit_analysis\<close> (Dash): the answer is returned behind a marker; the text
  returned when the attempt raises starts with another marker and ends with the message of
  the exception.\<close>

definition credit_prompt :: "float_format \<Rightarrow> data_summary \<Rightarrow> string" where
  "credit_prompt ff s =
       ''\<newline>''
       @ ''        Analyze this German credit risk dataset and provide actionable insights:\<newline>''
       @ ''        \<newline>''
       @ ''        Dataset Summary:\<newline>''
       @ ''        - Total records: '' @ str_nat (total_records s) @ ''\<newline>''
       @ ''        - Average credit amount: $'' @ format_comma_0f ff (avg_credit s)
       @ ''\<newline>''
       @ ''        - Average age: '' @ format_1f ff (avg_age s) @ '' years\<newline>''
       @ ''        - Average duration: '' @ format_1f ff (avg_duration s) @ '' months\<newline>''
       @ ''        - High risk percentage: '' @ format_1f ff (get_high_risk_pct s)
       @ ''%\<newline>''
       @ ''        \<newline>''
       @ ''        Please provide:\<newline>''
       @ ''        1. Key insights about credit risk patterns\<newline>''
       @ ''        2. Critical risk factors identification  \<newline>''
       @ ''        3. Actionable recommendations for risk management\<newline>''
       @ ''        4. Trends and correlations observed\<newline>''
       @ ''        \<newline>''
       @ ''        Format with bullet points and keep under 400 words. Focus on actionable business insights.\<newline>''
       @ ''        ''"

definition live_marker :: string where
  "live_marker =
     [CHR 0xF0, CHR 0x9F, CHR 0xA4, CHR 0x96]
       @ '' **Live AI Analysis** (GPT-3.5-turbo)\<newline>\<newline>''"

definition demo_marker :: string where
  "demo_marker =
     [CHR 0xF0, CHR 0x9F, CHR 0x94, CHR 0x8D] @ '' **AI Credit Risk Analysis** (Demo Mode)''"

definition error_line :: "string \<Rightarrow> string" where
  "error_line e =
     [CHR 0xE2, CHR 0x9A, CHR 0xA0, CHR 0xEF, CHR 0xB8, CHR 0x8F] @ '' OpenAI Error: '' @ e"

definition credit_fallback :: "float_format \<Rightarrow> data_summary \<Rightarrow> string \<Rightarrow> string" where
  "credit_fallback ff s e =
       demo_marker @ ''\<newline>''
       @ ''        \<newline>''
       @ ''**Key Insights:**\<newline>''
       @ bullet @ '' '' @ str_nat (total_records s) @ '' credit applications analyzed\<newline>''
       @ bullet @ '' Average credit amount: $'' @ format_comma_0f ff (avg_credit s)
       @ ''\<newline>''
       @ bullet @ '' High-risk applications: '' @ format_1f ff (get_high_risk_pct s)
       @ ''%\<newline>''
       @ ''\<newline>''
       @ ''**Risk Factors:**\<newline>''
       @ bullet @ '' Housing type significantly impacts approval rates\<newline>''
       @ bullet @ '' Duration and amount show strong correlation\<newline>''
       @ bullet @ '' Age groups 26-35 have highest application volume\<newline>''
       @ ''\<newline>''
       @ ''**Recommendations:**\<newline>''
       @ bullet @ '' Focus on improving risk assessment for high-amount loans\<newline>''
       @ bullet @ '' Consider housing stability as key factor\<newline>''
       @ bullet @ '' Implement age-based risk scoring\<newline>''
       @ ''\<newline>''
       @ error_line e"

definition generate_credit_analysis ::
    "float_format \<Rightarrow> service \<Rightarrow> data_summary \<Rightarrow> string" where
  "generate_credit_analysis ff service s =
     (case service (credit_prompt ff s) of
        Content c \<Rightarrow> live_marker @ c
      | Raised e \<Rightarrow> credit_fallback ff s e)"

subsection \<open>The pages\<close>

text \<open>What the eight figures are drawn from: the three grouped counts, the frequency table
  of the purposes, the columns handed to the histogram, the box plot and the scatter plot,
  and the two bars of the risk estimate.\<close>

record charts =
  fig1 :: "((nat \<times> string) \<times> nat) list"
  fig2 :: "(string \<times> nat) list"
  fig3 :: "int list"
  fig4 :: "((string \<times> int) \<times> nat) list"
  fig5 :: "(string \<times> int) list"
  fig6 :: "(int \<times> int \<times> string) list"
  fig7 :: "((string \<times> string) \<times> nat) list"
  fig8 :: "(string \<times> real) list"

text \<open>The charts section of \<^verbatim>\<open>main\<close> (Streamlit), over the filtered frame.\<close>

definition streamlit_charts :: "bool \<Rightarrow> row list \<Rightarrow> charts" where
  "streamlit_charts observed view =
     \<lparr> fig1 = age_sex_counts observed view,
       fig2 = value_counts (map Purpose view),
       fig3 = map Credit_amount view,
       fig4 = housing_job view,
       fig5 = map (\<lambda>r. (Housing r, Credit_amount r)) view,
       fig6 = map (\<lambda>r. (Duration r, Credit_amount r, Purpose r)) view,
       fig7 = savings_checking view,
       fig8 = [(''Good Risk'', real (length view) * 0.7),
               (''Bad Risk'', real (length view) * 0.3)] \<rparr>"

text \<open>The page \<^verbatim>\<open>main\<close> draws from the loaded frame and the widget values: the metrics, the
  summary text when the button was clicked (\<open>now\<close> is the clock reading), and the charts,
  which come after the summary text in the script.\<close>

record page =
  page_metrics :: "metric list"
  page_analysis :: "string option"
  page_charts :: charts

definition main_page ::
    "float_format \<Rightarrow> bool \<Rightarrow> service \<Rightarrow> bool \<Rightarrow> string \<Rightarrow> row list \<Rightarrow> filter_spec \<Rightarrow> page" where
  "main_page ff observed service clicked now df sp =
     (let view = filtered_df df sp;
          metrics = key_metrics ff df view;
          analysis = (if clicked
                      then Some (generate_ai_analysis ff service (streamlit_summary now view))
                      else None)
      in \<lparr> page_metrics = metrics, page_analysis = analysis,
           page_charts = streamlit_charts observed view \<rparr>)"

text \<open>\<^verbatim>\<open>update_all_charts\<close> (Dash), over the whole frame: the figures are built first, then
  the summary text is asked for; \<open>now1\<close> and \<open>now2\<close> are the two clock readings.\<close>

record dash_output =
  figures :: charts
  ai_analysis :: string
  data_store :: string

definition update_all_charts ::
    "float_format \<Rightarrow> bool \<Rightarrow> service \<Rightarrow> string \<Rightarrow> string \<Rightarrow> row list \<Rightarrow> dash_output" where
  "update_all_charts ff observed service now1 now2 df =
     \<lparr> figures =
         \<lparr> fig1 = age_sex_counts observed df,
           fig2 = value_counts (map Purpose df),
           fig3 = map Credit_amount df,
           fig4 = housing_job df,
           fig5 = map (\<lambda>r. (Housing r, Credit_amount r)) df,
           fig6 = map (\<lambda>r. (Duration r, Credit_amount r, Purpose r)) df,
           fig7 = savings_checking df,
           fig8 = [(''Good Risk'', 700), (''Bad Risk'', 300)] \<rparr>,
       ai_analysis = generate_credit_analysis ff service (dash_summary now1 df),
       data_store = ''Last updated: '' @ now2 \<rparr>"

subsection \<open>Example data\<close>

text \<open>Three rows of a file, the third with an age above the last age edge, and the frame
  the preprocessing makes of them: the credit edges are 995, 2000, 3000, 4000, 5000, 6000.\<close>

definition ex_rows :: "csv_row list" where
  "ex_rows =
     [ \<lparr> csv_Age = 22, csv_Sex = ''male'', csv_Job = 2, csv_Housing = ''rent'',
         csv_Saving_accounts = None, csv_Checking_account = Some ''little'',
         csv_Credit_amount = 1000, csv_Duration = 12, csv_Purpose = ''car'' \<rparr>,
       \<lparr> csv_Age = 40, csv_Sex = ''female'', csv_Job = 1, csv_Housing = ''own'',
         csv_Saving_accounts = Some ''rich'', csv_Checking_account = None,
         csv_Credit_amount = 6000, csv_Duration = 24, csv_Purpose = ''radio/TV'' \<rparr>,
       \<lparr> csv_Age = 101, csv_Sex = ''male'', csv_Job = 2, csv_Housing = ''rent'',
         csv_Saving_accounts = None, csv_Checking_account = None,
         csv_Credit_amount = 3500, csv_Duration = 36, csv_Purpose = ''car'' \<rparr> ]"

definition ex_df :: "row list" where
  "ex_df =
     [ \<lparr> Age = 22, Sex = ''male'', Job = 2, Housing = ''rent'',
         Saving_accounts = ''unknown'', Checking_account = ''little'',
         Credit_amount = 1000, Duration = 12, Purpose = ''car'',
         Age_Group = Some 0, Credit_Amount_Group = Some 0 \<rparr>,
       \<lparr> Age = 40, Sex = ''female'', Job = 1, Housing = ''own'',
         Saving_accounts = ''rich'', Checking_account = ''unknown'',
         Credit_amount = 6000, Duration = 24, Purpose = ''radio/TV'',
         Age_Group = Some 2, Credit_Amount_Group = Some 4 \<rparr>,
       \<lparr> Age = 101, Sex = ''male'', Job = 2, Housing = ''rent'',
         Saving_accounts = ''unknown'', Checking_account = ''unknown'',
         Credit_amount = 3500, Duration = 36, Purpose = ''car'',
         Age_Group = None, Credit_Amount_Group = Some 2 \<rparr> ]"

definition ex_bins :: "real list" where
  "ex_bins = [995, 2000, 3000, 4000, 5000, 6000]"


text \<open>A filter that keeps the first and the third row.\<close>

definition ex_cars :: filter_spec where
  "ex_cars =
     \<lparr> selected_purpose = [''car''], selected_housing = [''rent'', ''own''],
       age_range = (22, 101), credit_range = (1000, 6000) \<rparr>"

text \<open>A filter with no purpose selected: no row passes.\<close>

definition ex_none :: filter_spec where
  "ex_none =
     \<lparr> selected_purpose = [], selected_housing = [''rent'', ''own''],
       age_range = (22, 101), credit_range = (1000, 6000) \<rparr>"

definition ex_summary :: data_summary where
  "ex_summary = streamlit_summary ''2024-01-01 00:00:00'' ex_df"

text \<open>A service whose call raises (a rejected key), and one that answers with an empty
  text.\<close>

definition failing_service :: service where
  "failing_service prompt = Raised ''Incorrect API key provided''"

definition silent_service :: service where
  "silent_service prompt = Content []"

section \<open>Properties\<close>

subsection \<open>Helper facts\<close>


lemma bool_index_map: "bool_index df (map P df) = filter P df"
  unfolding bool_index_def by (induction df) auto

lemma mask_and_map: "mask_and (map P xs) (map Q xs) = map (\<lambda>x. P x \<and> Q x) xs"
  unfolding mask_and_def by (induction xs) auto

lemma filtered_df_filter: "filtered_df df sp = filter (passes sp) df"
proof -
  have "filtered_df df sp = bool_index df (map (passes sp) df)"
    unfolding filtered_df_def isin_def between_def passes_def
    by (simp add: mask_and_map o_def conj_assoc)
  then show ?thesis by (simp add: bool_index_map)
qed




lemma df_clean_rows:
  assumes "df_clean rows = Inr df"
  shows "\<exists>bins. nbins_to_bins (map (\<lambda>r. real_of_int (csv_Credit_amount r)) rows) 5 = Inr bins \<and>
           (\<forall>r \<in> set df. Age_Group r = cut_code age_bins (real_of_int (Age r)) \<and>
                          Credit_Amount_Group r = cut_code bins (real_of_int (Credit_amount r)))"
  using assms by (auto simp: df_clean_def split: sum.splits)

text \<open>The age edges: which ages get no bracket, and which get the first one.\<close>

lemma cut_age_None:
  "cut_code age_bins (real_of_int a) = None \<longleftrightarrow> \<not> (0 < a \<and> a \<le> 100)"
  by (auto simp: cut_code_def searchsorted_left_def age_bins_def)

lemma cut_age_bound:
  "cut_code age_bins (real_of_int a) = Some g \<Longrightarrow> g < length age_labels"
  by (auto simp: cut_code_def searchsorted_left_def age_bins_def age_labels_def
      split: if_splits)

lemma cut_age_first:
  "label_of age_labels (cut_code age_bins (real_of_int a)) = Some ''18-25''
     \<longleftrightarrow> 1 \<le> a \<and> a \<le> 25"
  by (auto simp: label_of_def cut_code_def searchsorted_left_def age_bins_def age_labels_def
      Let_def)

text \<open>Grouped counts.\<close>

lemma keys_groupby_size: "map fst (groupby_size keys) = sort (remdups keys)"
  by (simp add: groupby_size_def o_def)

lemma groupby_size_sorted: "sorted_wrt (<) (map fst (groupby_size keys))"
  by (simp add: keys_groupby_size strict_sorted_iff)

lemma groupby_size_count: "(k, c) \<in> set (groupby_size keys) \<Longrightarrow> c = count_list keys k"
  by (auto simp: groupby_size_def)

lemma sum_count_distinct:
  assumes "distinct ks" and "set xs \<subseteq> set ks"
  shows "sum_list (map (count_list xs) ks) = length xs"
proof -
  have "sum_list (map (count_list xs) ks) = sum (count_list xs) (set ks)"
    using assms(1) by (rule sum_list_distinct_conv_sum_set)
  also have "\<dots> = length xs"
    using assms(2) by (simp add: sum_count_set)
  finally show ?thesis .
qed

lemma groupby_size_total: "sum_list (map snd (groupby_size keys)) = length keys"
  by (simp add: groupby_size_def o_def sum_count_distinct)

lemma product_sorted:
  fixes xs :: "('a::linorder) list" and ys :: "('b::linorder) list"
  assumes "sorted_wrt (<) xs" and "sorted_wrt (<) ys"
  shows "sorted_wrt (<) (List.product xs ys)"
  using assms
proof (induction xs)
  case Nil
  then show ?case by simp
next
  case (Cons x xs)
  have "sorted_wrt (<) (map (Pair x) ys)"
    using Cons.prems(2) by (simp add: sorted_wrt_map)
  moreover have "sorted_wrt (<) (List.product xs ys)"
    using Cons by simp
  moreover have "\<forall>p \<in> set (map (Pair x) ys). \<forall>q \<in> set (List.product xs ys). p < q"
    using Cons.prems(1) by auto
  ultimately show ?case
    by (simp add: sorted_wrt_append)
qed

lemma length_age_sex_keys:
  "length (age_sex_keys view) = length (filter (\<lambda>r. Age_Group r \<noteq> None) view)"
  by (induction view) (auto simp: age_sex_keys_def split: option.splits)

lemma count_age_sex_keys:
  "count_list (age_sex_keys view) (g, s) =
     length (filter (\<lambda>r. Age_Group r = Some g \<and> Sex r = s) view)"
  by (induction view) (auto simp: age_sex_keys_def split: option.splits)

lemma set_age_sex_keys:
  "set (age_sex_keys view) = {(g, Sex r) | g r. r \<in> set view \<and> Age_Group r = Some g}"
  by (induction view) (auto simp: age_sex_keys_def split: option.splits)

lemma age_sex_counts_sorted: "sorted_wrt (<) (map fst (age_sex_counts observed view))"
proof (cases observed)
  case True
  then show ?thesis by (simp add: age_sex_counts_def groupby_size_sorted)
next
  case False
  have "sorted_wrt (<) (List.product [0..<length age_labels] (sort (remdups (map Sex view))))"
    by (rule product_sorted) (simp_all add: strict_sorted_iff)
  with False show ?thesis by (simp add: age_sex_counts_def o_def)
qed

lemma age_sex_counts_count:
  "((g, s), c) \<in> set (age_sex_counts observed view) \<Longrightarrow>
     c = length (filter (\<lambda>r. Age_Group r = Some g \<and> Sex r = s) view)"
  by (cases observed)
     (auto simp: age_sex_counts_def count_age_sex_keys dest: groupby_size_count)

lemma age_sex_counts_total:
  assumes "\<forall>r \<in> set view. \<forall>g. Age_Group r = Some g \<longrightarrow> g < length age_labels"
  shows "sum_list (map snd (age_sex_counts observed view)) =
           length (filter (\<lambda>r. Age_Group r \<noteq> None) view)"
proof (cases observed)
  case True
  then show ?thesis
    by (simp add: age_sex_counts_def groupby_size_total length_age_sex_keys)
next
  case False
  let ?idx = "List.product [0..<length age_labels] (sort (remdups (map Sex view)))"
  have d: "distinct ?idx" by (simp add: distinct_product)
  have s: "set (age_sex_keys view) \<subseteq> set ?idx"
    using assms by (auto simp: set_age_sex_keys)
  have "sum_list (map (count_list (age_sex_keys view)) ?idx) = length (age_sex_keys view)"
    using d s by (rule sum_count_distinct)
  with False show ?thesis
    by (simp add: age_sex_counts_def o_def length_age_sex_keys)
qed






text \<open>The summary text.\<close>

lemma str_nat_nonempty: "str_nat n \<noteq> []"
  by (subst str_nat.simps) simp

lemma sublist_skip: "sublist xs ys \<Longrightarrow> sublist xs (ps @ ys)"
  by (auto simp: sublist_def) (metis append.assoc)

lemma ai_fallback_count: "sublist (str_nat (total_records s)) (ai_fallback ff s)"
  unfolding ai_fallback_def
  by (rule sublist_append_rightI | rule sublist_skip)+

lemma credit_fallback_count: "sublist (str_nat (total_records s)) (credit_fallback ff s e)"
  unfolding credit_fallback_def
  by (rule sublist_append_rightI | rule sublist_skip)+

lemma ai_fallback_nonempty: "ai_fallback ff s \<noteq> []"
  by (simp add: ai_fallback_def)

lemma credit_fallback_nonempty: "credit_fallback ff s e \<noteq> []"
  by (simp add: credit_fallback_def demo_marker_def)

text \<open>The Dash text for a failed attempt: the marker in front, the message of the
  exception at the end.\<close>

lemma credit_fallback_shape:
  "prefix demo_marker (credit_fallback ff s e) \<and>
   suffix (error_line e) (credit_fallback ff s e) \<and>
   suffix e (credit_fallback ff s e)"
proof -
  have 1: "prefix demo_marker (credit_fallback ff s e)"
    unfolding credit_fallback_def by simp
  have 2: "suffix (error_line e) (credit_fallback ff s e)"
    unfolding credit_fallback_def by (rule suffix_appendI)+ (rule suffix_order.refl)
  have "suffix e (error_line e)"
    unfolding error_line_def by (rule suffix_appendI)+ (rule suffix_order.refl)
  from this 2 have 3: "suffix e (credit_fallback ff s e)"
    by (rule suffix_order.trans)
  from 1 2 3 show ?thesis by simp
qed

lemma product_Nil_right: "List.product xs [] = []"
  by (induction xs) simp_all

text \<open>The example data.\<close>

lemma ex_bins_eval:
  "nbins_to_bins (map (\<lambda>r. real_of_int (csv_Credit_amount r)) ex_rows) 5 = Inr ex_bins"
  by (simp add: nbins_to_bins_def ex_rows_def ex_bins_def linspace_def Let_def upt_rec)

lemma ex_df_eval: "df_clean ex_rows = Inr ex_df"
  unfolding df_clean_def ex_bins_eval
  by (simp add: ex_rows_def ex_df_def ex_bins_def age_bins_def cut_code_def
      searchsorted_left_def fillna_def)


subsection \<open>Filtering\<close>

text \<open>
  Claim C6. A row is in the filtered frame exactly when it is a row of the frame, its purpose
  is among the selected purposes, its housing among the selected housing types, its age
  within the age range and its credit amount within the credit range, both ends included:
  the four conditions are conjoined.
\<close>

theorem filter_conjunction:
  "r \<in> set (filtered_df df sp) \<longleftrightarrow>
     r \<in> set df \<and>
     Purpose r \<in> set (selected_purpose sp) \<and>
     Housing r \<in> set (selected_housing sp) \<and>
     fst (age_range sp) \<le> Age r \<and> Age r \<le> snd (age_range sp) \<and>
     fst (credit_range sp) \<le> Credit_amount r \<and> Credit_amount r \<le> snd (credit_range sp)"
  by (auto simp: filtered_df_filter passes_def)



subsection \<open>Bucket labels\<close>

text \<open>
  Claim C4. The bracket and bucket of a row are set when the file is loaded, from the fixed
  age edges and from the credit edges of the whole column that was read. Whatever filter is
  applied, each row of the filtered frame is a row of the loaded frame and carries the
  codes computed from those edges: the edges do not depend on the filter.
\<close>

theorem bucketing_stability:
  assumes "df_clean rows = Inr df"
  shows "\<exists>bins. nbins_to_bins (map (\<lambda>r. real_of_int (csv_Credit_amount r)) rows) 5 = Inr bins \<and>
           (\<forall>sp. \<forall>r \<in> set (filtered_df df sp).
              r \<in> set df \<and>
              Age_Group r = cut_code age_bins (real_of_int (Age r)) \<and>
              Credit_Amount_Group r = cut_code bins (real_of_int (Credit_amount r)))"
  using df_clean_rows [OF assms] by (auto simp: filtered_df_filter)

theorem bucketing_stability_witness:
  "df_clean ex_rows = Inr ex_df \<and>
   map Age (filtered_df ex_df ex_cars) = [22, 101] \<and>
   map Credit_amount (filtered_df ex_df ex_cars) = [1000, 3500] \<and>
   map Age_Group (filtered_df ex_df ex_cars) = [Some 0, None] \<and>
   map Credit_Amount_Group (filtered_df ex_df ex_cars) = [Some 0, Some 2]"
proof -
  have h: "df_clean ex_rows = Inr ex_df" by (rule ex_df_eval)
  from bucketing_stability [OF h] obtain bins
    where b: "nbins_to_bins (map (\<lambda>r. real_of_int (csv_Credit_amount r)) ex_rows) 5 = Inr bins"
      and l: "\<forall>r \<in> set (filtered_df ex_df ex_cars).
                Age_Group r = cut_code age_bins (real_of_int (Age r)) \<and>
                Credit_Amount_Group r = cut_code bins (real_of_int (Credit_amount r))"
    by blast
  from b have bins: "bins = ex_bins" by (simp add: ex_bins_eval)
  have v: "map (\<lambda>r. (Age r, Credit_amount r)) (filtered_df ex_df ex_cars) = [(22, 1000), (101, 3500)]"
    by (simp add: filtered_df_filter passes_def ex_df_def ex_cars_def)
  have "map Age_Group (filtered_df ex_df ex_cars) =
          map (\<lambda>r. cut_code age_bins (real_of_int (Age r))) (filtered_df ex_df ex_cars)"
    using l by simp
  also have "\<dots> = map (\<lambda>p. cut_code age_bins (real_of_int (fst p)))
                     (map (\<lambda>r. (Age r, Credit_amount r)) (filtered_df ex_df ex_cars))"
    by (simp add: o_def)
  also have "\<dots> = [Some 0, None]"
    unfolding v by (simp add: age_bins_def cut_code_def searchsorted_left_def)
  finally have g1: "map Age_Group (filtered_df ex_df ex_cars) = [Some 0, None]" .
  have "map Credit_Amount_Group (filtered_df ex_df ex_cars) =
          map (\<lambda>r. cut_code ex_bins (real_of_int (Credit_amount r))) (filtered_df ex_df ex_cars)"
    using l bins by simp
  also have "\<dots> = map (\<lambda>p. cut_code ex_bins (real_of_int (snd p)))
                     (map (\<lambda>r. (Age r, Credit_amount r)) (filtered_df ex_df ex_cars))"
    by (simp add: o_def)
  also have "\<dots> = [Some 0, Some 2]"
    unfolding v by (simp add: ex_bins_def cut_code_def searchsorted_left_def)
  finally have g2: "map Credit_Amount_Group (filtered_df ex_df ex_cars) = [Some 0, Some 2]" .
  from v have "map Age (filtered_df ex_df ex_cars) = [22, 101]"
      and "map Credit_amount (filtered_df ex_df ex_cars) = [1000, 3500]"
    by (simp_all add: filtered_df_filter passes_def ex_df_def ex_cars_def)
  with h g1 g2 show ?thesis by simp
qed

text \<open>
  Claim C10. A row whose age is not above 0 and at most 100 has no age bracket (the
  derived column is NaN), and no grouped count by age bracket counts it: each count is the
  number of rows with that bracket and sex, and the counts add up to the number of rows
  with an age above 0 and at most 100. The bracket labelled 18-25 is the one of the ages
  1 to 25.
\<close>

theorem age_bracket_coverage:
  assumes "df_clean rows = Inr df" and "set view \<subseteq> set df"
  shows "(\<forall>r \<in> set df.
            (Age_Group r = None \<longleftrightarrow> \<not> (0 < Age r \<and> Age r \<le> 100)) \<and>
            (label_of age_labels (Age_Group r) = Some ''18-25'' \<longleftrightarrow> 1 \<le> Age r \<and> Age r \<le> 25)) \<and>
         (\<forall>g s c. ((g, s), c) \<in> set (age_sex_counts observed view) \<longrightarrow>
            c = length (filter (\<lambda>r. Age_Group r = Some g \<and> Sex r = s) view)) \<and>
         sum_list (map snd (age_sex_counts observed view)) =
           length (filter (\<lambda>r. 0 < Age r \<and> Age r \<le> 100) view)"
proof -
  from df_clean_rows [OF assms(1)]
  have grp: "\<forall>r \<in> set df. Age_Group r = cut_code age_bins (real_of_int (Age r))"
    by blast
  have a: "\<forall>r \<in> set df.
            (Age_Group r = None \<longleftrightarrow> \<not> (0 < Age r \<and> Age r \<le> 100)) \<and>
            (label_of age_labels (Age_Group r) = Some ''18-25'' \<longleftrightarrow> 1 \<le> Age r \<and> Age r \<le> 25)"
    using grp by (simp add: cut_age_None cut_age_first)
  have b: "\<forall>g s c. ((g, s), c) \<in> set (age_sex_counts observed view) \<longrightarrow>
            c = length (filter (\<lambda>r. Age_Group r = Some g \<and> Sex r = s) view)"
    using age_sex_counts_count by blast
  have "\<forall>r \<in> set view. \<forall>g. Age_Group r = Some g \<longrightarrow> g < length age_labels"
    using grp assms(2) cut_age_bound by (metis subsetD)
  then have "sum_list (map snd (age_sex_counts observed view)) =
           length (filter (\<lambda>r. Age_Group r \<noteq> None) view)"
    by (rule age_sex_counts_total)
  also have "filter (\<lambda>r. Age_Group r \<noteq> None) view = filter (\<lambda>r. 0 < Age r \<and> Age r \<le> 100) view"
  proof (rule filter_cong [OF refl])
    fix r assume "r \<in> set view"
    then have "r \<in> set df" using assms(2) by blast
    with a have "Age_Group r = None \<longleftrightarrow> \<not> (0 < Age r \<and> Age r \<le> 100)" by blast
    then show "(Age_Group r \<noteq> None) = (0 < Age r \<and> Age r \<le> 100)" by simp
  qed
  finally have c: "sum_list (map snd (age_sex_counts observed view)) =
           length (filter (\<lambda>r. 0 < Age r \<and> Age r \<le> 100) view)" .
  from a b c show ?thesis by blast
qed

theorem age_bracket_coverage_witness:
  "df_clean ex_rows = Inr ex_df \<and> set ex_df \<subseteq> set ex_df \<and>
   Age (ex_df ! 2) = 101 \<and> Age_Group (ex_df ! 2) = None \<and>
   sum_list (map snd (age_sex_counts False ex_df)) = 2"
proof -
  have h: "df_clean ex_rows = Inr ex_df" by (rule ex_df_eval)
  have s: "set ex_df \<subseteq> set ex_df" by simp
  from age_bracket_coverage [OF h s, of False]
  have "sum_list (map snd (age_sex_counts False ex_df)) =
          length (filter (\<lambda>r. 0 < Age r \<and> Age r \<le> 100) ex_df)"
    by blast
  also have "\<dots> = 2" by (simp add: ex_df_def)
  finally show ?thesis using h by (simp add: ex_df_def)
qed

subsection \<open>Aggregation\<close>

text \<open>
  Claim C1, as stated, fails: on a frame without rows the three means are not-a-number
  and the metric boxes show them as \<^verbatim>\<open>nan\<close>. With no purpose selected the example frame
  filters to no row, and the page shows \<^verbatim>\<open>$nan\<close>, \<^verbatim>\<open>nan months\<close> and \<^verbatim>\<open>nan years\<close>.
\<close>

theorem empty_view_nan_counterexample:
  "filtered_df ex_df ex_none = [] \<and>
   avg_credit (streamlit_summary [] (filtered_df ex_df ex_none)) = NaN \<and>
   map metric_value (key_metrics decimal_format ex_df (filtered_df ex_df ex_none)) =
     [''0'', ''$nan'', ''nan months'', ''nan years'']"
proof -
  have e: "filtered_df ex_df ex_none = []"
    by (simp add: filtered_df_filter passes_def ex_none_def)
  show ?thesis
    unfolding e
    by (simp add: streamlit_summary_def key_metrics_def mean_def format_comma_0f_def
        format_0f_def commas_def str_nat.simps digit_char_def)
qed

text \<open>
  Claim C1, amended. On a frame without rows nothing raises: the record count is 0 and
  every grouped count and the frequency table are empty; the three means are
  not-a-number, shown as \<^verbatim>\<open>nan\<close> in the metric boxes. A mean is not-a-number exactly when
  the frame has no rows.
\<close>

theorem empty_view_summary:
  "total_records (streamlit_summary now []) = 0 \<and>
   map metric_value (key_metrics ff df []) = [''0'', ''$nan'', ''nan months'', ''nan years''] \<and>
   age_sex_counts observed [] = [] \<and>
   housing_job [] = [] \<and>
   savings_checking [] = [] \<and>
   value_counts (map Purpose []) = [] \<and>
   (avg_credit (streamlit_summary now view) = NaN \<longleftrightarrow> view = []) \<and>
   (avg_age (streamlit_summary now view) = NaN \<longleftrightarrow> view = []) \<and>
   (avg_duration (streamlit_summary now view) = NaN \<longleftrightarrow> view = [])"
proof -
  have m: "map metric_value (key_metrics ff df []) =
             [''0'', ''$nan'', ''nan months'', ''nan years'']"
    by (simp add: key_metrics_def mean_def format_comma_0f_def format_0f_def commas_def
        str_nat.simps digit_char_def)
  have g: "age_sex_counts observed [] = []" "housing_job [] = []" "savings_checking [] = []"
      "value_counts (map Purpose []) = []"
    by (simp_all add: age_sex_counts_def age_sex_keys_def housing_job_def housing_job_keys_def
        savings_checking_def savings_checking_keys_def groupby_size_def value_counts_def
        product_Nil_right)
  have n: "avg_credit (streamlit_summary now view) = NaN \<longleftrightarrow> view = []"
      "avg_age (streamlit_summary now view) = NaN \<longleftrightarrow> view = []"
      "avg_duration (streamlit_summary now view) = NaN \<longleftrightarrow> view = []"
    by (simp_all add: streamlit_summary_def mean_def)
  have "total_records (streamlit_summary now []) = 0"
    by (simp add: streamlit_summary_def)
  with m g n show ?thesis by simp
qed

text \<open>
  Claim C7, as stated, fails: the groups do not come in order of first appearance. In the
  example frame the keys appear as (rent, 2), (own, 1), and the table lists (own, 1)
  before (rent, 2).
\<close>

theorem group_order_counterexample:
  "unique (housing_job_keys ex_df) = [(''rent'', 2), (''own'', 1)] \<and>
   housing_job ex_df = [((''own'', 1), 1), ((''rent'', 2), 2)] \<and>
   map fst (housing_job ex_df) \<noteq> unique (housing_job_keys ex_df)"
  by (simp add: housing_job_def housing_job_keys_def groupby_size_def ex_df_def)

text \<open>
  Claim C7, amended. The groups of a grouped count come in ascending order of their key
  (pairs compared on the first column, then on the second; strings by code point, age
  brackets by their position among the categories), each key once; on two plain columns
  the keys are those that occur in the frame. The table is a function of the frame, so two
  calls on the same frame give the same order.
\<close>

theorem group_order_sorted:
  "sorted_wrt (<) (map fst (housing_job view)) \<and>
   set (map fst (housing_job view)) = set (housing_job_keys view) \<and>
   sorted_wrt (<) (map fst (savings_checking view)) \<and>
   set (map fst (savings_checking view)) = set (savings_checking_keys view) \<and>
   sorted_wrt (<) (map fst (age_sex_counts observed view))"
  using groupby_size_sorted [of "housing_job_keys view"]
    groupby_size_sorted [of "savings_checking_keys view"]
    age_sex_counts_sorted [of observed view]
  by (simp add: housing_job_def savings_checking_def keys_groupby_size)


subsection \<open>The summary text\<close>

text \<open>
  Claim C2, as stated, fails: the Streamlit function returns the answer of the service as
  it is, so an empty answer gives an empty result.
\<close>

theorem summarize_nonempty_counterexample:
  "generate_ai_analysis decimal_format silent_service ex_summary = []"
  by (simp add: generate_ai_analysis_def silent_service_def)

text \<open>
  Claim C2, amended. Whenever the attempt to reach the service raises, both functions
  return (nothing is raised out of them) a string that is not empty and contains the
  record count that was passed in, in decimal; the Dash function returns a string that is
  not empty in every case.
\<close>

theorem fallback_guarantee:
  assumes "service (ai_prompt ff s) = Raised e"
      and "service (credit_prompt ff s) = Raised e'"
  shows "generate_ai_analysis ff service s \<noteq> [] \<and>
         sublist (str_nat (total_records s)) (generate_ai_analysis ff service s) \<and>
         generate_credit_analysis ff service s \<noteq> [] \<and>
         sublist (str_nat (total_records s)) (generate_credit_analysis ff service s) \<and>
         str_nat (total_records s) \<noteq> [] \<and>
         generate_credit_analysis ff service' s \<noteq> []"
proof -
  have "generate_credit_analysis ff service' s \<noteq> []"
    by (cases "service' (credit_prompt ff s)")
       (simp_all add: generate_credit_analysis_def live_marker_def credit_fallback_nonempty)
  then show ?thesis
    using assms
    by (simp add: generate_ai_analysis_def generate_credit_analysis_def ai_fallback_nonempty
        credit_fallback_nonempty ai_fallback_count credit_fallback_count str_nat_nonempty)
qed

theorem fallback_guarantee_witness:
  "failing_service (ai_prompt decimal_format ex_summary) = Raised ''Incorrect API key provided'' \<and>
   failing_service (credit_prompt decimal_format ex_summary) =
     Raised ''Incorrect API key provided'' \<and>
   total_records ex_summary = 3 \<and>
   generate_ai_analysis decimal_format failing_service ex_summary \<noteq> [] \<and>
   sublist ''3'' (generate_ai_analysis decimal_format failing_service ex_summary) \<and>
   generate_credit_analysis decimal_format failing_service ex_summary \<noteq> [] \<and>
   sublist ''3'' (generate_credit_analysis decimal_format failing_service ex_summary)"
proof -
  have h1: "failing_service (ai_prompt decimal_format ex_summary) =
              Raised ''Incorrect API key provided''"
    by (simp add: failing_service_def)
  have h2: "failing_service (credit_prompt decimal_format ex_summary) =
              Raised ''Incorrect API key provided''"
    by (simp add: failing_service_def)
  have n: "total_records ex_summary = 3"
    by (simp add: ex_summary_def streamlit_summary_def ex_df_def)
  have d: "str_nat 3 = ''3''"
    by (simp add: str_nat.simps digit_char_def)
  from fallback_guarantee [OF h1 h2] h1 h2 n d show ?thesis
    by simp
qed

text \<open>
  Claim C3 holds of the Dash function (\<open>credit_fallback_shape\<close>) and not of the Streamlit
  one: when the attempt raises \<^verbatim>\<open>Incorrect API key provided\<close>, the text the Streamlit
  function returns is the fixed template, which does not contain the message.
\<close>

theorem streamlit_fallback_drops_error:
  "generate_ai_analysis decimal_format failing_service ex_summary =
     ai_fallback decimal_format ex_summary \<and>
   \<not> sublist ''Incorrect API key provided'' (ai_fallback decimal_format ex_summary) \<and>
   \<not> sublist ''Error'' (ai_fallback decimal_format ex_summary)"
proof -
  have 1: "generate_ai_analysis decimal_format failing_service ex_summary =
             ai_fallback decimal_format ex_summary"
    by (simp add: generate_ai_analysis_def failing_service_def)
  have 2: "\<not> sublist ''Incorrect API key provided'' (ai_fallback decimal_format ex_summary)"
    by code_simp
  have 3: "\<not> sublist ''Error'' (ai_fallback decimal_format ex_summary)"
    by code_simp
  from 1 2 3 show ?thesis by simp
qed

subsection \<open>The pages\<close>

text \<open>
  Claim C9. The figures of a run do not depend on the service: whatever it answers or
  raises, \<^verbatim>\<open>update_all_charts\<close> returns the same figures for the same frame, and the
  Streamlit page shows the same metrics and charts for the same frame and filter, whether
  or not the summary was asked for.
\<close>

theorem charts_independent_of_summary:
  "figures (update_all_charts ff observed service now1 now2 df) =
     figures (update_all_charts ff observed service' now1' now2' df) \<and>
   page_charts (main_page ff observed service clicked now df sp) =
     page_charts (main_page ff observed service' clicked' now' df sp) \<and>
   page_metrics (main_page ff observed service clicked now df sp) =
     page_metrics (main_page ff observed service' clicked' now' df sp)"
  by (simp add: update_all_charts_def main_page_def Let_def)


end
